theory Spec2Isabelle
  imports Main "HOL-Library.Sublist"
begin

section \<open>btrfs-backup: the command-line driver (backup.go, btrfs\_backup.go)\<close>

text \<open>
  The two source files are two versions of the program's \<^verbatim>\<open>main\<close> package. Both
  call into the packages \<^verbatim>\<open>btrfs\<close> and \<^verbatim>\<open>config\<close> and into Go's \<^verbatim>\<open>net/rpc\<close>,
  \<^verbatim>\<open>net\<close> and \<^verbatim>\<open>net/http\<close>, none of which is part of the files at hand. What those
  calls answer is therefore an input of the model (the record \<open>Env\<close> below), and what
  the program does is its result together with the ordered trace of the external
  calls it issued.
\<close>

subsection \<open>Data\<close>

text \<open>
  \<^verbatim>\<open>config.Config{SubvolumePath, SubvolumeDirectoryPath, Server, DestinationHost,
  DestinationPort}\<close>, in the field order of the composite literal in \<^verbatim>\<open>process\<close>.
  The port is a Go \<^verbatim>\<open>int\<close>; it is only compared with constants and converted to a
  string, so no arithmetic can wrap and a mathematical integer stands for it.
\<close>

record Config =
  SubvolumePath :: string
  SubvolumeDirectoryPath :: string
  Server :: bool
  DestinationHost :: string
  DestinationPort :: int

text \<open>
  A Go \<^verbatim>\<open>error\<close> value. \<open>InvalidPortNumber p\<close> is the value built by
  \<^verbatim>\<open>fmt.Errorf("Invalid port number: %d", p)\<close>; \<open>External m\<close> is an error handed back by
  the driver or by the network layer. A \<^verbatim>\<open>nil\<close> error is \<open>None\<close>.
\<close>

datatype error = InvalidPortNumber int | External string

text \<open>
  A \<^verbatim>\<open>[]string\<close> is \<open>None\<close> when it is the \<^verbatim>\<open>nil\<close> slice and \<open>Some xs\<close> otherwise
  (a non-nil slice may be empty). \<^verbatim>\<open>len\<close> of the nil slice is 0.
\<close>

type_synonym slice = "string list option"

definition elems :: "slice \<Rightarrow> string list" where
  "elems s = (case s of None \<Rightarrow> [] | Some xs \<Rightarrow> xs)"

text \<open>The external calls the program can issue, with the arguments that matter.\<close>

datatype event =
    DriverPrepare
  | DriverSubvolumes
  | DriverSnapshot string
  | DriverSendSubvolume string "error option"
  | RpcRegister
  | RpcHandleHTTP
  | NetListen string string
  | HttpServe
  | RpcDialHTTP string string
  | RpcCall string slice

text \<open>
  The answers of the outside world, one field per call site. Every call site but the
  one in the send loop is reached at most once in a run, so a field per site covers a
  driver whose answers change over time; the send loop's answers are indexed by the
  loop counter. \<open>call_reply\<close> is what the server stores into \<^verbatim>\<open>reply\<close>.
\<close>

record Env =
  prepare_err :: "error option"
  validate_subvols :: "slice \<times> error option"
  snapshot_err :: "error option"
  listen_err :: "error option"
  serve_returns :: bool
  dial_err :: "error option"
  client_subvols :: "slice \<times> error option"
  call_err :: "error option"
  call_reply :: slice
  send_err :: "nat \<Rightarrow> error option"

text \<open>
  How \<^verbatim>\<open>process\<close> ends: it returns an error value (possibly nil), or \<^verbatim>\<open>log.Fatal\<close>
  ends the whole program with status 1, or \<^verbatim>\<open>http.Serve\<close> never comes back.
\<close>

datatype outcome = Returns "error option" | LogFatal | Blocks

text \<open>How \<^verbatim>\<open>realMain\<close> ends: with a status, or not at all.\<close>

datatype exit = RealMainReturns int | OsExit int | NoReturn

subsection \<open>Go's conversion \<^verbatim>\<open>string(i)\<close> of an integer\<close>

text \<open>
  \<^verbatim>\<open>string(backupConfig.DestinationPort)\<close> converts an \<^verbatim>\<open>int\<close> to a string. In Go this
  is the UTF-8 encoding of the code point with that number, and the three bytes
  EF BF BD (the replacement character U+FFFD) for a number that is no valid code
  point (negative, a surrogate, or above 0x10FFFF). A \<open>string\<close> here is the list
  of the bytes.
\<close>

definition go_string_of_int :: "int \<Rightarrow> string" where
  "go_string_of_int i =
     (if i < 0 \<or> 1114111 < i \<or> (55296 \<le> i \<and> i \<le> 57343)
      then [char_of (239::int), char_of (191::int), char_of (189::int)]
      else if i < 128 then [char_of i]
      else if i < 2048 then [char_of (192 + i div 64), char_of (128 + i mod 64)]
      else if i < 65536
      then [char_of (224 + i div 4096), char_of (128 + (i div 64) mod 64),
            char_of (128 + i mod 64)]
      else [char_of (240 + i div 262144), char_of (128 + (i div 4096) mod 64),
            char_of (128 + (i div 64) mod 64), char_of (128 + i mod 64)])"

subsection \<open>backup.go\<close>

text \<open>
  \<^verbatim>\<open>validateConfig\<close>: \<^verbatim>\<open>Prepare\<close>, then the port check, then \<^verbatim>\<open>Subvolumes\<close>, whose
  error is returned only together with a nil slice, then \<^verbatim>\<open>Snapshot(backupConfig, "/")\<close>.
\<close>

definition validateConfig :: "Config \<Rightarrow> Env \<Rightarrow> error option \<times> event list" where
  "validateConfig backupConfig env =
     (case prepare_err env of
        Some err \<Rightarrow> (Some err, [DriverPrepare])
      | None \<Rightarrow>
          if DestinationPort backupConfig > 65535 \<or> DestinationPort backupConfig < 1024
          then (Some (InvalidPortNumber (DestinationPort backupConfig)), [DriverPrepare])
          else
            (case validate_subvols env of
               (subvols, err) \<Rightarrow>
                 if err \<noteq> None \<and> subvols = None
                 then (err, [DriverPrepare, DriverSubvolumes])
                 else
                   (case snapshot_err env of
                      Some err2 \<Rightarrow>
                        (Some err2, [DriverPrepare, DriverSubvolumes, DriverSnapshot ''/''])
                    | None \<Rightarrow>
                        (None, [DriverPrepare, DriverSubvolumes, DriverSnapshot ''/'']))))"

text \<open>
  The loop \<^verbatim>\<open>for i := 0; i < len(subvols); i++ { btrfs_driver.SendSubvolume(subvols[i]) }\<close>.
  Whatever \<^verbatim>\<open>SendSubvolume\<close> answers is dropped by the call statement; the trace keeps
  it beside the name that was sent.
\<close>

function send_loop :: "Env \<Rightarrow> string list \<Rightarrow> nat \<Rightarrow> event list" where
  "send_loop env subvols i =
     (if i < length subvols
      then DriverSendSubvolume (subvols ! i) (send_err env i) # send_loop env subvols (Suc i)
      else [])"
  by pat_completeness auto
termination
  by (relation "measure (\<lambda>(env, subvols, i). length subvols - i)") auto

declare send_loop.simps [simp del]

text \<open>
  \<^verbatim>\<open>process\<close>, from the resolved configuration on (flag parsing and the log header come
  before and call nothing recorded here). The server branch listens on the literal
  \<^verbatim>\<open>":1234"\<close>; the client branch dials \<^verbatim>\<open>DestinationHost + ":" + string(DestinationPort)\<close>,
  lists the subvolumes (the error of that call is overwritten unread), calls
  \<^verbatim>\<open>BtrfsRPC.SnapshotsNeeded\<close> and runs the send loop over \<^verbatim>\<open>subvols\<close>. The variable
  \<^verbatim>\<open>reply\<close> is never read after the call.
\<close>

definition process :: "Config \<Rightarrow> Env \<Rightarrow> outcome \<times> event list" where
  "process backupConfig env =
     (case validateConfig backupConfig env of
        (Some err, tr) \<Rightarrow> (Returns (Some err), tr)
      | (None, tr) \<Rightarrow>
          if Server backupConfig
          then
            (case listen_err env of
               Some e \<Rightarrow>
                 (LogFatal, tr @ [RpcRegister, RpcHandleHTTP, NetListen ''tcp'' '':1234''])
             | None \<Rightarrow>
                 (if serve_returns env then Returns None else Blocks,
                  tr @ [RpcRegister, RpcHandleHTTP, NetListen ''tcp'' '':1234'', HttpServe]))
          else
            (let address = DestinationHost backupConfig @ '':'' @
                             go_string_of_int (DestinationPort backupConfig)
             in case dial_err env of
                  Some err \<Rightarrow> (LogFatal, tr @ [RpcDialHTTP ''tcp'' address])
                | None \<Rightarrow>
                    (let subvols = fst (client_subvols env);
                         calls = [RpcDialHTTP ''tcp'' address, DriverSubvolumes,
                                  RpcCall ''BtrfsRPC.SnapshotsNeeded'' subvols]
                     in case call_err env of
                          Some err \<Rightarrow> (LogFatal, tr @ calls)
                        | None \<Rightarrow>
                            (Returns None, tr @ calls @ send_loop env (elems subvols) 0))))"

text \<open>\<^verbatim>\<open>realMain\<close> of backup.go: status 1 when \<^verbatim>\<open>process\<close> returned an error, else 0.\<close>

definition realMain :: "Config \<Rightarrow> Env \<Rightarrow> exit" where
  "realMain backupConfig env =
     (case fst (process backupConfig env) of
        Returns (Some err) \<Rightarrow> RealMainReturns 1
      | Returns None \<Rightarrow> RealMainReturns 0
      | LogFatal \<Rightarrow> OsExit 1
      | Blocks \<Rightarrow> NoReturn)"

subsection \<open>btrfs\_backup.go\<close>

text \<open>
  The other file declares the same three functions; they carry the prefix \<open>bb_\<close> here.
  Its \<^verbatim>\<open>validateConfig\<close> is the call of \<^verbatim>\<open>Prepare\<close> alone, its \<^verbatim>\<open>process\<close> hands that
  result on, and its \<^verbatim>\<open>realMain\<close> logs an error and returns 0 on every path. The
  configuration comes from \<^verbatim>\<open>defaultConfig()\<close>, which is not in the file, so it is a
  parameter.
\<close>

definition bb_validateConfig :: "Config \<Rightarrow> Env \<Rightarrow> error option \<times> event list" where
  "bb_validateConfig backupConfig env = (prepare_err env, [DriverPrepare])"

definition bb_process :: "Config \<Rightarrow> Env \<Rightarrow> error option \<times> event list" where
  "bb_process backupConfig env =
     (case bb_validateConfig backupConfig env of
        (Some err, tr) \<Rightarrow> (Some err, tr)
      | (None, tr) \<Rightarrow> (None, tr))"

definition bb_realMain :: "Config \<Rightarrow> Env \<Rightarrow> exit" where
  "bb_realMain backupConfig env =
     (case fst (bb_process backupConfig env) of
        Some err \<Rightarrow> RealMainReturns 0
      | None \<Rightarrow> RealMainReturns 0)"

subsection \<open>Reading a trace\<close>

fun is_driver_call :: "event \<Rightarrow> bool" where
  "is_driver_call DriverPrepare = True"
| "is_driver_call DriverSubvolumes = True"
| "is_driver_call (DriverSnapshot d) = True"
| "is_driver_call (DriverSendSubvolume s r) = True"
| "is_driver_call e = False"

fun is_network_call :: "event \<Rightarrow> bool" where
  "is_network_call RpcRegister = True"
| "is_network_call RpcHandleHTTP = True"
| "is_network_call (NetListen n a) = True"
| "is_network_call HttpServe = True"
| "is_network_call (RpcDialHTTP n a) = True"
| "is_network_call (RpcCall m a) = True"
| "is_network_call e = False"

fun is_snapshot :: "event \<Rightarrow> bool" where
  "is_snapshot (DriverSnapshot d) = True"
| "is_snapshot e = False"

text \<open>
  The calls of \<^verbatim>\<open>SendSubvolume\<close> in a trace, in the order they were made: the name
  sent and what the call answered.
\<close>

fun sends :: "event list \<Rightarrow> (string \<times> error option) list" where
  "sends [] = []"
| "sends (DriverSendSubvolume s r # tr) = (s, r) # sends tr"
| "sends (e # tr) = sends tr"

definition sent :: "event list \<Rightarrow> string list" where
  "sent tr = map fst (sends tr)"

subsection \<open>Sample inputs\<close>

text \<open>An outside world in which every call succeeds and the driver lists nothing.\<close>

definition env_ok :: Env where
  "env_ok =
     \<lparr>prepare_err = None, validate_subvols = (Some [], None), snapshot_err = None,
      listen_err = None, serve_returns = True, dial_err = None,
      client_subvols = (Some [], None), call_err = None, call_reply = None,
      send_err = (\<lambda>i. None)\<rparr>"

definition cfg_client :: Config where
  "cfg_client =
     \<lparr>SubvolumePath = ''/'', SubvolumeDirectoryPath = ''snapshots'', Server = False,
      DestinationHost = ''backup.example'', DestinationPort = 2000\<rparr>"

definition cfg_server :: Config where
  "cfg_server = cfg_client\<lparr>Server := True\<rparr>"

definition cfg_port80 :: Config where
  "cfg_port80 = cfg_client\<lparr>DestinationPort := 80\<rparr>"

text \<open>\<^verbatim>\<open>Prepare\<close> fails.\<close>

definition env_prepare_fails :: Env where
  "env_prepare_fails = env_ok\<lparr>prepare_err := Some (External ''not a subvolume'')\<rparr>"

text \<open>
  The enumeration inside \<^verbatim>\<open>validateConfig\<close> fails: once with a partial list beside
  the error, once with the nil slice.
\<close>

definition env_partial_list :: Env where
  "env_partial_list =
     env_ok\<lparr>validate_subvols := (Some [''snap1''], Some (External ''read error''))\<rparr>"

definition env_nil_list :: Env where
  "env_nil_list = env_ok\<lparr>validate_subvols := (None, Some (External ''read error''))\<rparr>"

text \<open>The client holds two snapshots and the server answers with the first of them.\<close>

definition env_remote_prefix :: Env where
  "env_remote_prefix =
     env_ok\<lparr>client_subvols := (Some [''snap1'', ''snap2''], None),
            call_reply := Some [''snap1'']\<rparr>"

text \<open>A second run: the server answers with everything the client holds.\<close>

definition env_all_present :: Env where
  "env_all_present =
     env_ok\<lparr>client_subvols := (Some [''snap1''], None), call_reply := Some [''snap1'']\<rparr>"

text \<open>The server answers with a name the client does not hold.\<close>

definition env_diverged :: Env where
  "env_diverged =
     env_ok\<lparr>client_subvols := (Some [''snapA''], None), call_reply := Some [''snapB'']\<rparr>"


section \<open>Properties\<close>

subsection \<open>The send loop\<close>

lemma send_loop_from:
  "send_loop env subvols i =
     map (\<lambda>j. DriverSendSubvolume (subvols ! j) (send_err env j)) [i ..< length subvols]"
proof (induction env subvols i rule: send_loop.induct)
  case (1 env subvols i)
  show ?case
  proof (cases "i < length subvols")
    case True
    then have "send_loop env subvols i =
        DriverSendSubvolume (subvols ! i) (send_err env i) # send_loop env subvols (Suc i)"
      by (subst send_loop.simps) simp
    with True "1.IH" show ?thesis
      by (simp add: upt_conv_Cons)
  next
    case False
    then show ?thesis
      by (subst send_loop.simps) simp
  qed
qed

lemma send_loop_0:
  "send_loop env subvols 0 =
     map (\<lambda>j. DriverSendSubvolume (subvols ! j) (send_err env j)) [0 ..< length subvols]"
  by (rule send_loop_from)

lemma sends_append: "sends (tr @ tr') = sends tr @ sends tr'"
  by (induction tr rule: sends.induct) simp_all


subsection \<open>Shapes of the traces\<close>

lemma sends_validateConfig: "sends (snd (validateConfig cfg env)) = []"
  by (simp add: validateConfig_def split: option.splits prod.splits)

lemma send_loop_no_prepare: "DriverPrepare \<notin> set (send_loop env subvols i)"
  by (auto simp: send_loop_from)

lemma send_loop_no_snapshot: "filter is_snapshot (send_loop env subvols i) = []"
  by (simp add: send_loop_from filter_map o_def)

lemma validateConfig_traces:
  "snd (validateConfig cfg env) = [DriverPrepare] \<or>
   snd (validateConfig cfg env) = [DriverPrepare, DriverSubvolumes] \<or>
   snd (validateConfig cfg env) = [DriverPrepare, DriverSubvolumes, DriverSnapshot ''/'']"
  by (simp add: validateConfig_def split: option.splits prod.splits)

lemma validateConfig_prepare_error:
  "prepare_err env = Some e \<Longrightarrow> validateConfig cfg env = (Some e, [DriverPrepare])"
  by (simp add: validateConfig_def)

lemma validateConfig_invalid_port:
  assumes "DestinationPort cfg < 1024 \<or> 65535 < DestinationPort cfg"
  shows "validateConfig cfg env =
     (Some (case prepare_err env of Some e \<Rightarrow> e | None \<Rightarrow> InvalidPortNumber (DestinationPort cfg)),
      [DriverPrepare])"
  using assms by (auto simp: validateConfig_def split: option.splits)

lemma snapshot_validateConfig:
  "filter is_snapshot (snd (validateConfig cfg env)) =
     (if prepare_err env = None \<and> 1024 \<le> DestinationPort cfg \<and> DestinationPort cfg \<le> 65535 \<and>
         \<not> (snd (validate_subvols env) \<noteq> None \<and> fst (validate_subvols env) = None)
      then [DriverSnapshot ''/''] else [])"
proof (cases "prepare_err env")
  case (Some e)
  then show ?thesis by (simp add: validateConfig_def)
next
  case None
  show ?thesis
  proof (cases "DestinationPort cfg > 65535 \<or> DestinationPort cfg < 1024")
    case True
    with None show ?thesis by (auto simp: validateConfig_def)
  next
    case False
    obtain subvols err where v: "validate_subvols env = (subvols, err)"
      by (cases "validate_subvols env")
    show ?thesis
    proof (cases "err \<noteq> None \<and> subvols = None")
      case True
      with None False v show ?thesis by (simp add: validateConfig_def)
    next
      case nofail: False
      with None False v show ?thesis
        by (cases "snapshot_err env") (auto simp: validateConfig_def)
    qed
  qed
qed

lemma validateConfig_count_prepare:
  "hd (snd (validateConfig cfg env)) = DriverPrepare \<and> snd (validateConfig cfg env) \<noteq> [] \<and>
   count_list (snd (validateConfig cfg env)) DriverPrepare = 1"
  using validateConfig_traces [of cfg env] by auto

lemma validateConfig_call_reply:
  "validateConfig cfg (env\<lparr>call_reply := R\<rparr>) = validateConfig cfg env"
  by (simp add: validateConfig_def split: option.splits prod.splits)

lemma process_validation_fails:
  assumes "validateConfig cfg env = (Some e, tr)"
  shows "process cfg env = (Returns (Some e), tr)"
  using assms by (simp add: process_def)

lemma process_client_run:
  assumes "fst (validateConfig cfg env) = None" and "\<not> Server cfg"
    and "dial_err env = None" and "call_err env = None"
  shows "process cfg env =
     (Returns None,
      snd (validateConfig cfg env) @
      [RpcDialHTTP ''tcp'' (DestinationHost cfg @ '':'' @ go_string_of_int (DestinationPort cfg)),
       DriverSubvolumes,
       RpcCall ''BtrfsRPC.SnapshotsNeeded'' (fst (client_subvols env))] @
      send_loop env (elems (fst (client_subvols env))) 0)"
proof -
  obtain tr where "validateConfig cfg env = (None, tr)"
    using assms(1) by (cases "validateConfig cfg env") simp
  with assms(2-4) show ?thesis
    by (simp add: process_def Let_def)
qed

lemma process_extends_validateConfig:
  "\<exists>more. snd (process cfg env) = snd (validateConfig cfg env) @ more \<and>
          DriverPrepare \<notin> set more \<and> filter is_snapshot more = [] \<and>
          (fst (validateConfig cfg env) \<noteq> None \<longrightarrow> more = [])"
proof (cases "validateConfig cfg env")
  case (Pair r tr)
  show ?thesis
  proof (cases r)
    case (Some e)
    with Pair show ?thesis by (simp add: process_def)
  next
    case None
    show ?thesis
    proof (cases "Server cfg")
      case True
      with Pair None show ?thesis
        by (cases "listen_err env") (simp_all add: process_def)
    next
      case False
      show ?thesis
      proof (cases "dial_err env")
        case (Some e)
        with Pair None False show ?thesis by (simp add: process_def Let_def)
      next
        case nodial: None
        with Pair None False show ?thesis
          by (cases "call_err env")
            (simp_all add: process_def Let_def send_loop_no_prepare send_loop_no_snapshot)
      qed
    qed
  qed
qed

subsection \<open>Validation\<close>

text \<open>
  Claim C1, as amended. A port outside 1024--65535 makes the run fail, but not before
  every driver call: \<^verbatim>\<open>validateConfig\<close> calls \<^verbatim>\<open>Prepare\<close> first and compares the port
  afterwards. With such a port the run issues exactly one external call, \<^verbatim>\<open>Prepare\<close>,
  and returns the error of \<^verbatim>\<open>Prepare\<close> if that failed and the invalid-port error
  otherwise; no network call and no other driver call is made.
\<close>

theorem C1_invalid_port_fails_after_prepare:
  assumes "DestinationPort cfg < 1024 \<or> 65535 < DestinationPort cfg"
  shows "process cfg env =
     (Returns (Some (case prepare_err env of
                       Some e \<Rightarrow> e
                     | None \<Rightarrow> InvalidPortNumber (DestinationPort cfg))),
      [DriverPrepare])"
  by (rule process_validation_fails) (rule validateConfig_invalid_port [OF assms])

text \<open>The theorem at port 80, with \<^verbatim>\<open>Prepare\<close> succeeding and with \<^verbatim>\<open>Prepare\<close> failing.\<close>

theorem C1_witness:
  "process cfg_port80 env_ok = (Returns (Some (InvalidPortNumber 80)), [DriverPrepare]) \<and>
   process cfg_port80 env_prepare_fails =
     (Returns (Some (External ''not a subvolume'')), [DriverPrepare])"
  using C1_invalid_port_fails_after_prepare [of cfg_port80 env_ok]
    C1_invalid_port_fails_after_prepare [of cfg_port80 env_prepare_fails]
  by (simp add: cfg_port80_def cfg_client_def env_ok_def env_prepare_fails_def)

text \<open>
  Claim C1 as stated asks for no driver call at all before the failure. At port 80 the
  driver calls of the run are the one call of \<^verbatim>\<open>Prepare\<close>.
\<close>

theorem C1_counterexample:
  "DestinationPort cfg_port80 = 80 \<and>
   filter is_driver_call (snd (process cfg_port80 env_ok)) = [DriverPrepare]"
  by (simp add: process_def validateConfig_def cfg_port80_def cfg_client_def env_ok_def)

text \<open>
  Claim C10. Once \<^verbatim>\<open>Prepare\<close> has succeeded and the port is in range, the error of the
  enumeration is returned exactly when it is non-nil and the list is nil. In every other
  case, a non-nil error beside a non-nil list included, validation goes on to
  \<^verbatim>\<open>Snapshot\<close> and returns what that call answers.
\<close>

theorem C10_enumeration_error_suppressed:
  assumes "prepare_err env = None"
    and "1024 \<le> DestinationPort cfg" and "DestinationPort cfg \<le> 65535"
    and "validate_subvols env = (subvols, err)"
  shows "validateConfig cfg env =
     (if err \<noteq> None \<and> subvols = None
      then (err, [DriverPrepare, DriverSubvolumes])
      else (snapshot_err env, [DriverPrepare, DriverSubvolumes, DriverSnapshot ''/'']))"
  using assms by (auto simp: validateConfig_def split: option.splits)

text \<open>
  The theorem at a failed enumeration with a partial list (validation passes) and at a
  failed enumeration with the nil slice (validation fails with that error).
\<close>

theorem C10_witness:
  "validateConfig cfg_client env_partial_list =
     (None, [DriverPrepare, DriverSubvolumes, DriverSnapshot ''/'']) \<and>
   validateConfig cfg_client env_nil_list =
     (Some (External ''read error''), [DriverPrepare, DriverSubvolumes])"
  using C10_enumeration_error_suppressed
      [of env_partial_list cfg_client "Some [''snap1'']" "Some (External ''read error'')"]
    C10_enumeration_error_suppressed
      [of env_nil_list cfg_client None "Some (External ''read error'')"]
  by (simp add: cfg_client_def env_ok_def env_partial_list_def env_nil_list_def)

text \<open>
  Claim C7. In both files the first external call of a run is \<^verbatim>\<open>Prepare\<close>, it is made
  exactly once, and when it answers an error it is the only call of the run. The trace
  holds the calls made by the code of these files; what the RPC handlers do once
  \<^verbatim>\<open>http.Serve\<close> runs is outside them.
\<close>

theorem C7_prepare_once_and_first:
  "snd (process cfg env) \<noteq> [] \<and> hd (snd (process cfg env)) = DriverPrepare \<and>
   count_list (snd (process cfg env)) DriverPrepare = 1 \<and>
   (prepare_err env \<noteq> None \<longrightarrow> snd (process cfg env) = [DriverPrepare]) \<and>
   snd (bb_process cfg env) = [DriverPrepare]"
proof -
  let ?v = "snd (validateConfig cfg env)"
  obtain more where p: "snd (process cfg env) = ?v @ more" and np: "DriverPrepare \<notin> set more"
    and stop: "fst (validateConfig cfg env) \<noteq> None \<longrightarrow> more = []"
    using process_extends_validateConfig by blast
  have v: "hd ?v = DriverPrepare" "?v \<noteq> []" "count_list ?v DriverPrepare = 1"
    using validateConfig_count_prepare by blast+
  have "snd (process cfg env) \<noteq> []"
    using p v(2) by simp
  moreover have "hd (snd (process cfg env)) = DriverPrepare"
    using p v(1,2) by simp
  moreover have "count_list (snd (process cfg env)) DriverPrepare = 1"
    using p v(3) np by (simp add: count_list_0_iff)
  moreover have "prepare_err env \<noteq> None \<longrightarrow> snd (process cfg env) = [DriverPrepare]"
  proof
    assume "prepare_err env \<noteq> None"
    then obtain e where "prepare_err env = Some e" by blast
    then have "validateConfig cfg env = (Some e, [DriverPrepare])"
      by (rule validateConfig_prepare_error)
    then show "snd (process cfg env) = [DriverPrepare]"
      by (simp add: process_def)
  qed
  moreover have "snd (bb_process cfg env) = [DriverPrepare]"
    by (simp add: bb_process_def bb_validateConfig_def split: option.splits)
  ultimately show ?thesis by blast
qed

text \<open>The theorem at a failing \<^verbatim>\<open>Prepare\<close> and at a server run in which every call succeeds.\<close>

theorem C7_witness:
  "snd (process cfg_client env_prepare_fails) = [DriverPrepare] \<and>
   snd (bb_process cfg_client env_prepare_fails) = [DriverPrepare] \<and>
   hd (snd (process cfg_server env_ok)) = DriverPrepare \<and>
   count_list (snd (process cfg_server env_ok)) DriverPrepare = 1"
  using C7_prepare_once_and_first [of cfg_client env_prepare_fails]
    C7_prepare_once_and_first [of cfg_server env_ok]
  by (simp add: env_prepare_fails_def env_ok_def)

text \<open>
  Claim C8, as amended. \<^verbatim>\<open>Snapshot\<close> is called by \<^verbatim>\<open>validateConfig\<close>, which does not
  look at the mode: in a client run and in a server run alike it is called once when
  \<^verbatim>\<open>Prepare\<close> succeeded, the port is in range and the enumeration did not fail with a
  nil list, and not at all otherwise. Nothing after validation calls it again.
\<close>

theorem C8_snapshot_taken_in_validation:
  "filter is_snapshot (snd (process cfg env)) =
     (if prepare_err env = None \<and> 1024 \<le> DestinationPort cfg \<and> DestinationPort cfg \<le> 65535 \<and>
         \<not> (snd (validate_subvols env) \<noteq> None \<and> fst (validate_subvols env) = None)
      then [DriverSnapshot ''/''] else [])"
proof -
  obtain more where "snd (process cfg env) = snd (validateConfig cfg env) @ more"
      and "filter is_snapshot more = []"
    using process_extends_validateConfig by blast
  then have "filter is_snapshot (snd (process cfg env)) =
      filter is_snapshot (snd (validateConfig cfg env))"
    by simp
  then show ?thesis
    by (simp only: snapshot_validateConfig)
qed

text \<open>The theorem at a client run that passes validation and at one whose \<^verbatim>\<open>Prepare\<close> fails.\<close>

theorem C8_witness:
  "filter is_snapshot (snd (process cfg_client env_ok)) = [DriverSnapshot ''/''] \<and>
   filter is_snapshot (snd (process cfg_client env_prepare_fails)) = []"
  using C8_snapshot_taken_in_validation [of cfg_client env_ok]
    C8_snapshot_taken_in_validation [of cfg_client env_prepare_fails]
  by (simp add: cfg_client_def env_ok_def env_prepare_fails_def)

text \<open>
  Claim C8 as stated fails on both halves: a server run takes a snapshot through the
  driver, and a client run whose \<^verbatim>\<open>Prepare\<close> fails takes none.
\<close>

theorem C8_counterexample:
  "Server cfg_server \<and>
   filter is_snapshot (snd (process cfg_server env_ok)) = [DriverSnapshot ''/''] \<and>
   \<not> Server cfg_client \<and>
   filter is_snapshot (snd (process cfg_client env_prepare_fails)) = []"
  by (simp add: process_def validateConfig_def cfg_server_def cfg_client_def env_ok_def
      env_prepare_fails_def)

subsection \<open>The exit status\<close>

text \<open>\<^verbatim>\<open>realMain\<close> of backup.go returns 1 exactly for a returned error and 0 exactly for nil.\<close>

lemma realMain_status:
  "(realMain cfg env = RealMainReturns 1 \<longleftrightarrow> (\<exists>err. fst (process cfg env) = Returns (Some err))) \<and>
   (realMain cfg env = RealMainReturns 0 \<longleftrightarrow> fst (process cfg env) = Returns None)"
  by (auto simp: realMain_def split: outcome.splits option.splits)

text \<open>
  Claim C4 fails in btrfs\_backup.go: when \<^verbatim>\<open>Prepare\<close> fails, \<^verbatim>\<open>process\<close> returns that
  error, and \<^verbatim>\<open>realMain\<close> logs it and returns 0.
\<close>

theorem C4_bb_realMain_returns_0_on_error:
  "fst (bb_process cfg_client env_prepare_fails) = Some (External ''not a subvolume'') \<and>
   bb_realMain cfg_client env_prepare_fails = RealMainReturns 0"
  by (simp add: bb_realMain_def bb_process_def bb_validateConfig_def env_prepare_fails_def
      env_ok_def)

subsection \<open>The port on the wire\<close>

text \<open>
  Whatever the configured port, a server run that passes validation listens on
  \<^verbatim>\<open>":1234"\<close>.
\<close>

lemma server_listens_on_1234:
  assumes "Server cfg" and "fst (validateConfig cfg env) = None"
  shows "[e \<leftarrow> snd (process cfg env). is_network_call e] =
     RpcRegister # RpcHandleHTTP # NetListen ''tcp'' '':1234'' #
       (if listen_err env = None then [HttpServe] else [])"
proof -
  obtain tr where v: "validateConfig cfg env = (None, tr)"
    using assms(2) by (cases "validateConfig cfg env") simp
  have "filter is_network_call tr = []"
    using validateConfig_traces [of cfg env] v by auto
  with v assms(1) show ?thesis
    by (cases "listen_err env") (simp_all add: process_def)
qed

text \<open>
  For a port in the valid range, every byte of \<^verbatim>\<open>string(port)\<close> is 128 or more: none
  of them is a decimal digit.
\<close>

lemma go_string_of_int_port_not_ascii:
  assumes "1024 \<le> p" and "p \<le> 65535"
  shows "list_all (\<lambda>c. (128::int) \<le> of_char c) (go_string_of_int p)"
proof -
  have a: "p div 64 < 32" if "p < 2048" using that by simp
  have b: "p div 4096 < 16" using assms(2) by simp
  have c: "0 \<le> p div 64" "0 \<le> p div 4096" using assms(1) by simp_all
  have m: "\<And>k::int. 0 \<le> k mod 64 \<and> k mod 64 < 64" by simp
  have small: "\<And>k::int. 128 \<le> k \<Longrightarrow> k < 256 \<Longrightarrow> 128 \<le> k mod 256" by simp
  show ?thesis
    using assms a b c
    by (auto simp: go_string_of_int_def intro!: small)
qed

text \<open>
  Claim C5 fails in both modes. With port 2000 configured, the server run listens on
  \<^verbatim>\<open>":1234"\<close>, and the client run dials the host followed by a colon and the two bytes
  DF 90 (the UTF-8 encoding of U+07D0), not \<^verbatim>\<open>"backup.example:2000"\<close>.
\<close>

theorem C5_port_not_used:
  "DestinationPort cfg_server = 2000 \<and>
   snd (process cfg_server env_ok) =
     [DriverPrepare, DriverSubvolumes, DriverSnapshot ''/'', RpcRegister, RpcHandleHTTP,
      NetListen ''tcp'' '':1234'', HttpServe] \<and>
   DestinationPort cfg_client = 2000 \<and>
   snd (process cfg_client env_ok) =
     [DriverPrepare, DriverSubvolumes, DriverSnapshot ''/'',
      RpcDialHTTP ''tcp'' (''backup.example:'' @ [CHR 0xDF, CHR 0x90]),
      DriverSubvolumes, RpcCall ''BtrfsRPC.SnapshotsNeeded'' (Some [])]"
  by (simp add: process_def validateConfig_def cfg_server_def cfg_client_def env_ok_def
      send_loop_0 elems_def Let_def go_string_of_int_def char_of_def)

subsection \<open>What the client sends\<close>

text \<open>
  Claim C2 fails on the code: the client has two snapshots, the server's answer is the
  first of them (a prefix of the local chain), and the client sends both instead of the
  suffix after the prefix.
\<close>

theorem C2_sends_whole_local_chain:
  "prefix (elems (call_reply env_remote_prefix))
     (elems (fst (client_subvols env_remote_prefix))) \<and>
   drop (length (elems (call_reply env_remote_prefix)))
     (elems (fst (client_subvols env_remote_prefix))) = [''snap2''] \<and>
   sent (snd (process cfg_client env_remote_prefix)) = [''snap1'', ''snap2'']"
  by (simp add: sent_def process_def validateConfig_def cfg_client_def env_ok_def
      env_remote_prefix_def send_loop_0 elems_def Let_def upt_rec)

text \<open>
  Claim C3 fails on the code: on a second run the server answers with everything the
  client holds, the local chain minus the answer is empty, and the client sends its
  snapshot again.
\<close>

theorem C3_second_run_sends_again:
  "[s \<leftarrow> elems (fst (client_subvols env_all_present)).
      s \<notin> set (elems (call_reply env_all_present))] = [] \<and>
   sent (snd (process cfg_client env_all_present)) = [''snap1'']"
  by (simp add: sent_def process_def validateConfig_def cfg_client_def env_ok_def
      env_all_present_def send_loop_0 elems_def Let_def upt_rec)




text \<open>
  Claim C9, as amended. The client never compares the server's answer with its own
  chain: in a client run that reaches the remote call and gets an answer without an RPC
  error, whatever the answer \<open>R\<close> is, a prefix of the local chain or not, the run does
  not fail and \<^verbatim>\<open>process\<close> returns nil.
\<close>

theorem C9_reply_never_checked:
  assumes "fst (validateConfig cfg env) = None" and "\<not> Server cfg"
    and "dial_err env = None" and "call_err env = None"
  shows "fst (process cfg (env\<lparr>call_reply := R\<rparr>)) = Returns None"
proof -
  let ?env = "env\<lparr>call_reply := R\<rparr>"
  have "fst (validateConfig cfg ?env) = None"
    by (simp add: validateConfig_call_reply assms(1))
  moreover have "dial_err ?env = None" and "call_err ?env = None"
    by (simp_all add: assms(3,4))
  ultimately show ?thesis
    using assms(2) by (simp add: process_client_run)
qed

text \<open>The theorem at an answer naming a snapshot the client does not hold.\<close>

theorem C9_witness:
  "fst (process cfg_client env_diverged) = Returns None"
  using C9_reply_never_checked [of cfg_client "env_diverged" "Some [''snapB'']"]
  by (simp add: validateConfig_def cfg_client_def env_ok_def env_diverged_def)

text \<open>
  Claim C9 as stated asks for a failure when the remote chain is no prefix of the local
  one. Here it is none, and the run does not fail: \<^verbatim>\<open>process\<close> returns nil.
\<close>

theorem C9_counterexample:
  "\<not> prefix (elems (call_reply env_diverged)) (elems (fst (client_subvols env_diverged))) \<and>
   fst (process cfg_client env_diverged) = Returns None"
  by (simp add: process_def validateConfig_def cfg_client_def env_ok_def env_diverged_def
      elems_def Let_def)

end
